theory Spec2Isabelle
  imports Complex_Main "HOL-Library.AList" "HOL-Library.Sublist" "HOL-Library.Log_Nat"
begin

section \<open>Python values used by the reader\<close>

text \<open>
  The reader of \<^verbatim>\<open>unified_planning/grpc/proto_reader.py\<close> is embedded function by
  function. An exception of the Python code is a value \<open>Inl e\<close> of a sum type, a returned
  value is \<open>Inr v\<close>; Python's \<^verbatim>\<open>None\<close> is \<open>None\<close> of an option type.
\<close>

datatype py_error =
    ValueError | IndexError | KeyError | AttributeError | AssertionError
  | ZeroDivisionError | OverflowError | UnknownSymbol | DuplicateName

subsection \<open>Strings: \<^verbatim>\<open>str.split\<close>, \<^verbatim>\<open>str.startswith\<close>, \<^verbatim>\<open>in\<close>, indexing\<close>

text \<open>
  \<^verbatim>\<open>s.split(sep)\<close> for a non-empty separator: the pieces between the non-overlapping
  occurrences of \<open>sep\<close>, found from the left. \<open>split_scan sep acc k s\<close> reads \<open>s\<close> with the
  current piece \<open>acc\<close> (reversed) and \<open>k\<close> characters of a matched separator still to skip.
\<close>

fun split_scan :: "string \<Rightarrow> string \<Rightarrow> nat \<Rightarrow> string \<Rightarrow> string list" where
  "split_scan sep acc k [] = [rev acc]"
| "split_scan sep acc (Suc k) (c # cs) = split_scan sep acc k cs"
| "split_scan sep acc 0 (c # cs) =
     (if prefix sep (c # cs) then rev acc # split_scan sep [] (length sep - 1) cs
      else split_scan sep (c # acc) 0 cs)"

definition split :: "string \<Rightarrow> string \<Rightarrow> string list" where
  "split s sep = split_scan sep [] 0 s"

definition startswith :: "string \<Rightarrow> string \<Rightarrow> bool" where
  "startswith s p = prefix p s"

text \<open>\<^verbatim>\<open>p in s\<close> on strings: \<open>p\<close> occurs in \<open>s\<close> as a contiguous piece.\<close>

fun contains :: "string \<Rightarrow> string \<Rightarrow> bool" where
  "contains p [] = (p = [])"
| "contains p (c # cs) = (prefix p (c # cs) \<or> contains p cs)"

text \<open>\<^verbatim>\<open>xs[i]\<close> for a literal index \<open>i \<ge> 0\<close>: \<^verbatim>\<open>IndexError\<close> out of range.\<close>

definition item :: "'a list \<Rightarrow> nat \<Rightarrow> py_error + 'a" where
  "item xs i = (if i < length xs then Inr (xs ! i) else Inl IndexError)"

subsection \<open>Number literals: \<^verbatim>\<open>int\<close>, \<^verbatim>\<open>fractions.Fraction\<close>, \<^verbatim>\<open>float\<close>\<close>

text \<open>
  The three parsers are Python's own (they are not code of the repository); they are
  modelled on ASCII text. White space is what \<^verbatim>\<open>str.strip\<close> removes among the ASCII
  characters: tab, line feed, vertical tab, form feed, carriage return, the separators
  28 to 31, and the space.
\<close>

definition is_space :: "char \<Rightarrow> bool" where
  "is_space c = ((of_char c :: nat) \<in> {9, 10, 11, 12, 13, 28, 29, 30, 31, 32})"

definition is_digit :: "char \<Rightarrow> bool" where
  "is_digit c = (48 \<le> (of_char c :: nat) \<and> (of_char c :: nat) \<le> 57)"

definition digit_val :: "char \<Rightarrow> int" where
  "digit_val c = of_char c - 48"

definition strip :: "string \<Rightarrow> string" where
  "strip s = rev (dropWhile is_space (rev (dropWhile is_space s)))"

definition int_of_digits :: "string \<Rightarrow> int" where
  "int_of_digits ds = foldl (\<lambda>a c. 10 * a + digit_val c) 0 ds"

text \<open>
  \<open>scan_more us s\<close> reads on after a digit: more digits, and when \<open>us\<close> holds also a single
  underscore that stands between two digits. \<open>scan_digits us s\<close> is the longest run of
  digits at the start of \<open>s\<close> (possibly empty) and the rest of \<open>s\<close>.
\<close>

fun scan_more :: "bool \<Rightarrow> string \<Rightarrow> string \<times> string" where
  "scan_more us [] = ([], [])"
| "scan_more us (c # cs) =
     (if is_digit c then (case scan_more us cs of (ds, r) \<Rightarrow> (c # ds, r))
      else if us \<and> c = CHR ''_'' \<and> (case cs of [] \<Rightarrow> False | d # _ \<Rightarrow> is_digit d)
      then scan_more us cs
      else ([], c # cs))"

definition scan_digits :: "bool \<Rightarrow> string \<Rightarrow> string \<times> string" where
  "scan_digits us s =
     (case s of [] \<Rightarrow> ([], [])
      | c # cs \<Rightarrow> if is_digit c then (case scan_more us cs of (ds, r) \<Rightarrow> (c # ds, r))
                 else ([], s))"

text \<open>An optional sign: \<open>(True, rest)\<close> after a minus.\<close>

definition scan_sign :: "string \<Rightarrow> bool \<times> string" where
  "scan_sign s =
     (case s of [] \<Rightarrow> (False, [])
      | c # cs \<Rightarrow> if c = CHR ''-'' then (True, cs)
                 else if c = CHR ''+'' then (False, cs) else (False, s))"

text \<open>
  \<^verbatim>\<open>int(s)\<close> in base ten: white space stripped, an optional sign, then digits with
  single underscores allowed between them; anything else is a \<^verbatim>\<open>ValueError\<close>.
\<close>

definition py_int :: "string \<Rightarrow> py_error + int" where
  "py_int s =
     (case scan_sign (strip s) of (neg, r) \<Rightarrow>
        (case scan_digits True r of (ds, r') \<Rightarrow>
           if ds = [] \<or> r' \<noteq> [] then Inl ValueError
           else Inr (if neg then - int_of_digits ds else int_of_digits ds)))"

text \<open>
  An optional exponent part \<^verbatim>\<open>e[+-]digits\<close> (the letter in either case): the exponent
  and the rest, or \<open>None\<close> when an \<^verbatim>\<open>e\<close> is not followed by an exponent.
\<close>

definition scan_exp :: "bool \<Rightarrow> string \<Rightarrow> (int \<times> string) option" where
  "scan_exp us s =
     (case s of [] \<Rightarrow> Some (0, [])
      | c # cs \<Rightarrow>
          if c = CHR ''e'' \<or> c = CHR ''E'' then
            (case scan_sign cs of (neg, r) \<Rightarrow>
               (case scan_digits us r of (ds, r') \<Rightarrow>
                  if ds = [] then None
                  else Some (if neg then - int_of_digits ds else int_of_digits ds, r')))
          else Some (0, s))"

definition pow10 :: "int \<Rightarrow> rat" where
  "pow10 e = (if 0 \<le> e then 10 ^ nat e else 1 / 10 ^ nat (- e))"

text \<open>
  A decimal numeral \<^verbatim>\<open>digits[.digits][e[+-]digits]\<close> with at least one digit before or
  after the point, read to the end of the text: its exact value.
\<close>

definition scan_decimal :: "bool \<Rightarrow> string \<Rightarrow> rat option" where
  "scan_decimal us s =
     (case scan_digits us s of (ip, r) \<Rightarrow>
        (case (case r of [] \<Rightarrow> ([], False, r)
               | c # cs \<Rightarrow> if c = CHR ''.''
                   then (case scan_digits us cs of (fp, r') \<Rightarrow> (fp, True, r'))
                   else ([], False, r)) of
           (fp, dot, r1) \<Rightarrow>
             if ip = [] \<and> fp = [] then None
             else (case scan_exp us r1 of
                     None \<Rightarrow> None
                   | Some (e, r2) \<Rightarrow>
                       if r2 \<noteq> [] then None
                       else Some (of_int (int_of_digits (ip @ fp))
                                  * pow10 (e - int (length fp))))))"

text \<open>
  \<^verbatim>\<open>fractions.Fraction(s)\<close> on a string, after the regular expression of the module:
  white space, an optional sign, then either \<^verbatim>\<open>digits/digits\<close> or a decimal numeral
  (no underscores). A zero denominator is a \<^verbatim>\<open>ZeroDivisionError\<close>, text of another
  shape a \<^verbatim>\<open>ValueError\<close>.
\<close>

definition py_Fraction :: "string \<Rightarrow> py_error + rat" where
  "py_Fraction s =
     (case scan_sign (strip s) of (neg, r) \<Rightarrow>
        (case scan_digits False r of (num, r1) \<Rightarrow>
           (case (if num \<noteq> [] \<and> r1 \<noteq> [] \<and> hd r1 = CHR ''/''
                  then (case scan_digits False (tl r1) of (den, r2) \<Rightarrow>
                          if den = [] \<or> r2 \<noteq> [] then Inl ValueError
                          else if int_of_digits den = 0 then Inl ZeroDivisionError
                          else Inr (Fract (int_of_digits num) (int_of_digits den)))
                  else (case scan_decimal False r of
                          None \<Rightarrow> Inl ValueError
                        | Some q \<Rightarrow> Inr q)) of
              Inl e \<Rightarrow> Inl e
            | Inr q \<Rightarrow> Inr (if neg then - q else q))))"

subsection \<open>Floats\<close>

text \<open>
  A Python float is a binary64 value: a rational \<open>Float q\<close> (with \<open>q\<close> a value of the
  format; the sign of a zero is not kept), an infinity (\<open>FloatInf True\<close> the negative
  one) or a NaN.
\<close>

datatype py_float = Float rat | FloatInf bool | FloatNaN

definition pow2 :: "int \<Rightarrow> rat" where
  "pow2 e = (if 0 \<le> e then 2 ^ nat e else 1 / 2 ^ nat (- e))"

definition round_half_even :: "rat \<Rightarrow> int" where
  "round_half_even m =
     (let f = \<lfloor>m\<rfloor>; r = m - of_int f
      in if r < 1 / 2 then f else if 1 / 2 < r then f + 1
         else if even f then f else f + 1)"

text \<open>
  The binary64 value nearest to a rational (ties to even): 53 bits of precision, the
  least exponent of a normal number is -1022, values that round to \<open>2 ^ 1024\<close> or more
  overflow to an infinity.
\<close>

definition round64 :: "rat \<Rightarrow> py_float" where
  "round64 q =
     (if q = 0 then Float 0
      else
        let a = \<bar>q\<bar>;
            e0 = bitlen (fst (quotient_of a)) - bitlen (snd (quotient_of a));
            e = (if pow2 e0 \<le> a then e0 else e0 - 1);
            k = max e (- 1022) - 52;
            v = of_int (round_half_even (a / pow2 k)) * pow2 k
        in if pow2 1024 \<le> v then FloatInf (q < 0)
           else Float (if q < 0 then - v else v))"

definition lower :: "char \<Rightarrow> char" where
  "lower c = (if 65 \<le> (of_char c :: nat) \<and> (of_char c :: nat) \<le> 90
              then char_of ((of_char c :: nat) + 32) else c)"

text \<open>
  \<^verbatim>\<open>float(s)\<close>: white space stripped, an optional sign, then \<^verbatim>\<open>inf\<close>,
  \<^verbatim>\<open>infinity\<close> or \<^verbatim>\<open>nan\<close> in any case, or a decimal numeral (underscores allowed
  between digits), rounded to the nearest float.
\<close>

definition py_float :: "string \<Rightarrow> py_error + py_float" where
  "py_float s =
     (case scan_sign (strip s) of (neg, r) \<Rightarrow>
        if map lower r = ''inf'' \<or> map lower r = ''infinity'' then Inr (FloatInf neg)
        else if map lower r = ''nan'' then Inr FloatNaN
        else (case scan_decimal True r of
                None \<Rightarrow> Inl ValueError
              | Some q \<Rightarrow> Inr (round64 (if neg then - q else q))))"

text \<open>
  \<^verbatim>\<open>int(x)\<close> on a float truncates towards zero; an infinity is an
  \<^verbatim>\<open>OverflowError\<close>, a NaN a \<^verbatim>\<open>ValueError\<close>.
\<close>

definition int_of_float :: "py_float \<Rightarrow> py_error + int" where
  "int_of_float x =
     (case x of
        Float q \<Rightarrow> Inr (if 0 \<le> q then \<lfloor>q\<rfloor> else \<lceil>q\<rceil>)
      | FloatInf _ \<Rightarrow> Inl OverflowError
      | FloatNaN \<Rightarrow> Inl ValueError)"

section \<open>The type decoder\<close>

text \<open>
  The types of the planning model. A bound of a real type is a
  \<^verbatim>\<open>fractions.Fraction\<close> or a float, as the caller passed it.
\<close>

datatype number = Fraction rat | PyFloat py_float

datatype up_type =
    BoolType
  | IntType "int option" "int option"
  | RealType "number option" "number option"
  | UserType string "up_type option"

text \<open>\<^verbatim>\<open>convert_type_str(s, env)\<close>: the type named by the string of a parameter or fluent.\<close>

definition convert_type_str :: "string \<Rightarrow> py_error + up_type" where
  "convert_type_str s =
     (if s = ''bool'' then Inr BoolType
      else if s = ''int'' then Inr (IntType None None)
      else if s = ''float'' then Inr (RealType None None)
      else if contains ''real'' s then
        (case item (split s ''['') 1 of
           Inl e \<Rightarrow> Inl e
         | Inr t \<Rightarrow>
             (case item (split t '','') 0 of
                Inl e \<Rightarrow> Inl e
              | Inr ta \<Rightarrow>
                  (case py_float ta of
                     Inl e \<Rightarrow> Inl e
                   | Inr a \<Rightarrow>
                       (case item (split s '','') 1 of
                          Inl e \<Rightarrow> Inl e
                        | Inr u \<Rightarrow>
                            (case item (split u '']'') 0 of
                               Inl e \<Rightarrow> Inl e
                             | Inr tb \<Rightarrow>
                                 (case py_float tb of
                                    Inl e \<Rightarrow> Inl e
                                  | Inr b \<Rightarrow>
                                      Inr (RealType (Some (PyFloat a)) (Some (PyFloat b)))))))))
      else Inr (UserType s None))"

text \<open>The \<^verbatim>\<open>TypeDeclaration\<close> message.\<close>

record type_declaration_msg =
  type_name :: string
  parent_type :: string

text \<open>
  The text between the first \<^verbatim>\<open>[\<close> and the next \<^verbatim>\<open>]\<close>, cut at every comma
  followed by a space: \<^verbatim>\<open>type_name.split("[")[1].split("]")[0].split(", ")\<close>.
\<close>

definition bounds_of :: "string \<Rightarrow> py_error + string list" where
  "bounds_of s =
     (case item (split s ''['') 1 of
        Inl e \<Rightarrow> Inl e
      | Inr t \<Rightarrow>
          (case item (split t '']'') 0 of
             Inl e \<Rightarrow> Inl e
           | Inr u \<Rightarrow> Inr (split u '', '')))"

text \<open>
  The two bounds as \<^verbatim>\<open>_convert_type_declaration\<close> reads them, with \<open>parse\<close> the
  parser of a bound (\<^verbatim>\<open>int\<close> or \<^verbatim>\<open>fractions.Fraction\<close>): \<^verbatim>\<open>lb\<close> and
  \<^verbatim>\<open>ub\<close> start as \<^verbatim>\<open>None\<close>; the lower bound is parsed unless it is \<^verbatim>\<open>-inf\<close>, and
  the upper bound is looked at in the \<^verbatim>\<open>elif\<close> branch only.
\<close>

definition read_bounds ::
    "(string \<Rightarrow> py_error + 'a) \<Rightarrow> string list \<Rightarrow> py_error + ('a option \<times> 'a option)" where
  "read_bounds parse tmp =
     (case item tmp 0 of
        Inl e \<Rightarrow> Inl e
      | Inr t0 \<Rightarrow>
          if t0 \<noteq> ''-inf'' then
            (case parse t0 of Inl e \<Rightarrow> Inl e | Inr lb \<Rightarrow> Inr (Some lb, None))
          else
            (case item tmp 1 of
               Inl e \<Rightarrow> Inl e
             | Inr t1 \<Rightarrow>
                 if t1 \<noteq> ''inf'' then
                   (case parse t1 of Inl e \<Rightarrow> Inl e | Inr ub \<Rightarrow> Inr (None, Some ub))
                 else Inr (None, None)))"

text \<open>
  \<^verbatim>\<open>_convert_type_declaration(self, msg)\<close>. In the last branch \<^verbatim>\<open>parent\<close> is
  \<^verbatim>\<open>None\<close> when it is compared with the empty string, so the comparison holds and the
  parent is always built from \<^verbatim>\<open>msg.parent_type\<close>.
\<close>

definition convert_type_declaration :: "type_declaration_msg \<Rightarrow> py_error + up_type" where
  "convert_type_declaration msg =
     (if type_name msg = ''bool'' then Inr BoolType
      else if startswith (type_name msg) ''integer['' then
        (case bounds_of (type_name msg) of
           Inl e \<Rightarrow> Inl e
         | Inr tmp \<Rightarrow>
             (case read_bounds py_int tmp of
                Inl e \<Rightarrow> Inl e
              | Inr (lb, ub) \<Rightarrow> Inr (IntType lb ub)))
      else if startswith (type_name msg) ''real['' then
        (case bounds_of (type_name msg) of
           Inl e \<Rightarrow> Inl e
         | Inr tmp \<Rightarrow>
             (case read_bounds py_Fraction tmp of
                Inl e \<Rightarrow> Inl e
              | Inr (lb, ub) \<Rightarrow>
                  Inr (RealType (map_option Fraction lb) (map_option Fraction ub))))
      else
        (let parent = (None :: string option);
             parent = (if parent \<noteq> Some [] then Some (UserType (parent_type msg) None)
                       else None)
         in Inr (UserType (type_name msg) parent)))"

section \<open>The planning model\<close>

text \<open>
  The classes of the planning model are not code of the reader; the reader only calls
  their constructors, which are datatype constructors here.
\<close>

datatype action_parameter = ActionParameter string up_type

datatype up_object = Object string up_type

datatype fluent = Fluent string up_type "up_type list"

datatype node_type =
  BOOL_CONSTANT | INT_CONSTANT | REAL_CONSTANT | PARAM_EXP | FLUENT_EXP | OBJECT_EXP

text \<open>
  An expression node is \<^verbatim>\<open>create_node(node_type, args, payload)\<close>. The reader passes
  as arguments the converted children, each of which may be \<^verbatim>\<open>None\<close>, and as payload
  whatever the atom became: \<^verbatim>\<open>None\<close>, a node, an object or a fluent. The payloads
  \<open>PInt\<close>, \<open>PReal\<close>, \<open>PBool\<close> and \<open>PParam\<close> are those of the nodes that the
  expression manager's \<^verbatim>\<open>Int\<close>, \<^verbatim>\<open>Real\<close>, \<^verbatim>\<open>Bool\<close> and \<^verbatim>\<open>ParameterExp\<close> build
  (\<open>em_Int\<close> and so on below).
\<close>

datatype fnode = FNode node_type "fnode option list" payload
  and payload =
    PNone | PInt int | PReal py_float | PBool bool | PParam action_parameter
  | PNode fnode | PObject up_object | PFluent fluent

definition em_Int :: "int \<Rightarrow> fnode" where
  "em_Int v = FNode INT_CONSTANT [] (PInt v)"

definition em_Real :: "py_float \<Rightarrow> fnode" where
  "em_Real v = FNode REAL_CONSTANT [] (PReal v)"

definition em_Bool :: "bool \<Rightarrow> fnode" where
  "em_Bool v = FNode BOOL_CONSTANT [] (PBool v)"

definition em_ParameterExp :: "action_parameter \<Rightarrow> fnode" where
  "em_ParameterExp p = FNode PARAM_EXP [] (PParam p)"

subsection \<open>Time\<close>

datatype timepoint_kind = GLOBAL_START | GLOBAL_END | START | END

datatype timepoint = Timepoint timepoint_kind

datatype timing = Timing int "timepoint option"

datatype time_interval = TimeInterval timing timing bool bool

subsection \<open>Effects\<close>

datatype effect_kind = ASSIGN | INCREASE | DECREASE

text \<open>
  Modelled from the spec: the class \<^verbatim>\<open>Effect\<close> is not among the sources. An effect is a
  target fluent expression, a value expression, an optional guard and a kind; the kind of
  an unrecognised wire kind (\<^verbatim>\<open>kind = 0\<close> in the reader) is \<open>ASSIGN\<close>.
\<close>

datatype effect = Effect "fnode option" "fnode option" "fnode option option" effect_kind

definition effect_fluent :: "effect \<Rightarrow> fnode option" where
  "effect_fluent e = (case e of Effect f v c k \<Rightarrow> f)"

definition effect_value :: "effect \<Rightarrow> fnode option" where
  "effect_value e = (case e of Effect f v c k \<Rightarrow> v)"

text \<open>
  The effects that the action rebuilder keeps: those whose fluent and value are both
  not \<^verbatim>\<open>None\<close>.
\<close>

definition attachable :: "effect \<Rightarrow> bool" where
  "attachable e = (effect_fluent e \<noteq> None \<and> effect_value e \<noteq> None)"

subsection \<open>Actions\<close>

text \<open>
  Modelled from the spec: the classes \<^verbatim>\<open>InstantaneousAction\<close> and
  \<^verbatim>\<open>DurativeAction\<close> are not among the sources. An action has a name, an ordered
  mapping from parameter names to parameters, a list of conditions (each with an optional
  span), a list of effects (plain or timed) and an optional cost; a durative action also
  owns a duration constraint. The values of the duration and of the cost are of a type
  \<open>'a\<close> that the reader only passes on. \<^verbatim>\<open>action.parameter(name)\<close> is a lookup in
  the mapping; the reader expects \<^verbatim>\<open>KeyError\<close> from it for an unknown name.
\<close>

datatype action_class = InstantaneousAction | DurativeAction

record 'a action =
  act_class :: action_class
  act_name :: string
  act_parameters :: "(string \<times> action_parameter) list"
  act_duration :: "'a option"
  act_conditions :: "(time_interval option \<times> fnode) list"
  act_effects :: "(timing option \<times> fnode \<times> fnode) list"
  act_cost :: "'a option"

definition new_action :: "action_class \<Rightarrow> string \<Rightarrow> (string \<times> action_parameter) list \<Rightarrow> 'a action" where
  "new_action c n ps =
     \<lparr>act_class = c, act_name = n, act_parameters = ps, act_duration = None,
      act_conditions = [], act_effects = [], act_cost = None\<rparr>"

definition parameter :: "'a action \<Rightarrow> string \<Rightarrow> py_error + action_parameter" where
  "parameter a n = (case map_of (act_parameters a) n of None \<Rightarrow> Inl KeyError | Some p \<Rightarrow> Inr p)"

text \<open>
  Modelled from the spec: the methods of the action classes are not among the sources.
  A condition is attached with its span or as a plain precondition, an effect with its
  occurrence time or as a plain effect.
\<close>

definition set_duration_constraint :: "'a action \<Rightarrow> 'a \<Rightarrow> 'a action" where
  "set_duration_constraint a d = a\<lparr>act_duration := Some d\<rparr>"

definition set_cost :: "'a action \<Rightarrow> 'a \<Rightarrow> 'a action" where
  "set_cost a c = a\<lparr>act_cost := Some c\<rparr>"

definition add_condition :: "'a action \<Rightarrow> time_interval \<Rightarrow> fnode \<Rightarrow> 'a action" where
  "add_condition a interval expr = a\<lparr>act_conditions := act_conditions a @ [(Some interval, expr)]\<rparr>"

definition add_precondition :: "'a action \<Rightarrow> fnode \<Rightarrow> 'a action" where
  "add_precondition a expr = a\<lparr>act_conditions := act_conditions a @ [(None, expr)]\<rparr>"

definition add_timed_effect :: "'a action \<Rightarrow> timing \<Rightarrow> fnode \<Rightarrow> fnode \<Rightarrow> 'a action" where
  "add_timed_effect a t f v = a\<lparr>act_effects := act_effects a @ [(Some t, f, v)]\<rparr>"

definition add_effect :: "'a action \<Rightarrow> fnode \<Rightarrow> fnode \<Rightarrow> 'a action" where
  "add_effect a f v = a\<lparr>act_effects := act_effects a @ [(None, f, v)]\<rparr>"

subsection \<open>Problems and plans\<close>

text \<open>
  Modelled from the spec: the class \<^verbatim>\<open>Problem\<close> is not among the sources. A problem
  owns an object table, a fluent table and an action table, all keyed by name, a list of
  timed effects, a list of initial-state assignments and a list of goals. \<^verbatim>\<open>has_object\<close>
  and \<^verbatim>\<open>has_fluent\<close> tell whether a name is known; looking up a name that is not in
  its table is a hard error (\<^verbatim>\<open>UnknownSymbol\<close>), and so is adding a name that its table
  already holds (\<^verbatim>\<open>DuplicateName\<close>). Timed effects, assigned values and goals are
  values of the type \<open>'a\<close> that the reader only passes on.
\<close>

record 'a problem =
  problem_name :: string
  objects :: "(string \<times> up_object) list"
  fluents :: "(string \<times> fluent) list"
  actions :: "(string \<times> 'a action) list"
  timed_effects :: "'a list"
  initial_values :: "('a \<times> 'a) list"
  goals :: "'a list"

definition new_problem :: "string \<Rightarrow> 'a problem" where
  "new_problem n =
     \<lparr>problem_name = n, objects = [], fluents = [], actions = [], timed_effects = [],
      initial_values = [], goals = []\<rparr>"

definition has_object :: "'a problem \<Rightarrow> string \<Rightarrow> bool" where
  "has_object p n = (map_of (objects p) n \<noteq> None)"

definition has_fluent :: "'a problem \<Rightarrow> string \<Rightarrow> bool" where
  "has_fluent p n = (map_of (fluents p) n \<noteq> None)"

definition problem_object :: "'a problem \<Rightarrow> string \<Rightarrow> py_error + up_object" where
  "problem_object p n = (case map_of (objects p) n of None \<Rightarrow> Inl UnknownSymbol | Some ob \<Rightarrow> Inr ob)"

definition problem_fluent :: "'a problem \<Rightarrow> string \<Rightarrow> py_error + fluent" where
  "problem_fluent p n = (case map_of (fluents p) n of None \<Rightarrow> Inl UnknownSymbol | Some f \<Rightarrow> Inr f)"

definition problem_action :: "'a problem \<Rightarrow> string \<Rightarrow> py_error + 'a action" where
  "problem_action p n = (case map_of (actions p) n of None \<Rightarrow> Inl UnknownSymbol | Some a \<Rightarrow> Inr a)"

definition add_object :: "'a problem \<Rightarrow> up_object \<Rightarrow> py_error + 'a problem" where
  "add_object p ob =
     (case ob of Object n t \<Rightarrow>
        if has_object p n then Inl DuplicateName
        else Inr (p\<lparr>objects := objects p @ [(n, ob)]\<rparr>))"

definition add_fluent :: "'a problem \<Rightarrow> fluent \<Rightarrow> py_error + 'a problem" where
  "add_fluent p f =
     (case f of Fluent n t sig \<Rightarrow>
        if has_fluent p n then Inl DuplicateName
        else Inr (p\<lparr>fluents := fluents p @ [(n, f)]\<rparr>))"

definition add_action :: "'a problem \<Rightarrow> 'a action \<Rightarrow> py_error + 'a problem" where
  "add_action p a =
     (if map_of (actions p) (act_name a) \<noteq> None then Inl DuplicateName
      else Inr (p\<lparr>actions := actions p @ [(act_name a, a)]\<rparr>))"

definition add_problem_timed_effect :: "'a problem \<Rightarrow> 'a \<Rightarrow> py_error + 'a problem" where
  "add_problem_timed_effect p e = Inr (p\<lparr>timed_effects := timed_effects p @ [e]\<rparr>)"

definition set_initial_value :: "'a problem \<Rightarrow> 'a \<Rightarrow> 'a \<Rightarrow> py_error + 'a problem" where
  "set_initial_value p f v = Inr (p\<lparr>initial_values := initial_values p @ [(f, v)]\<rparr>)"

definition add_goal :: "'a problem \<Rightarrow> 'a \<Rightarrow> py_error + 'a problem" where
  "add_goal p g = Inr (p\<lparr>goals := goals p @ [g]\<rparr>)"

datatype 'a action_instance = ActionInstance "'a action" "fnode list"

datatype 'a plan = SequentialPlan "'a action_instance list"

section \<open>The temporal decoder\<close>

text \<open>The wire messages; an enumeration field may hold a number the reader does not know.\<close>

datatype timepoint_kind_msg =
  TK_GLOBAL_START | TK_GLOBAL_END | TK_START | TK_END | TK_other int

record timepoint_msg =
  Timepoint_kind :: timepoint_kind_msg

record timing_msg =
  Timing_timepoint :: timepoint_msg
  Timing_delay :: py_float

record time_interval_msg =
  TimeInterval_lower :: timing_msg
  TimeInterval_upper :: timing_msg
  TimeInterval_is_left_open :: bool
  TimeInterval_is_right_open :: bool

text \<open>\<^verbatim>\<open>_convert_timepoint\<close>: a kind that matches no branch falls off the end (\<^verbatim>\<open>None\<close>).\<close>

definition convert_timepoint :: "timepoint_msg \<Rightarrow> timepoint option" where
  "convert_timepoint msg =
     (if Timepoint_kind msg = TK_GLOBAL_START then Some (Timepoint GLOBAL_START)
      else if Timepoint_kind msg = TK_GLOBAL_END then Some (Timepoint GLOBAL_END)
      else if Timepoint_kind msg = TK_START then Some (Timepoint START)
      else if Timepoint_kind msg = TK_END then Some (Timepoint END)
      else None)"

text \<open>\<^verbatim>\<open>_convert_timing\<close>: \<^verbatim>\<open>Timing(delay=int(msg.delay), timepoint=...)\<close>.\<close>

definition convert_timing :: "timing_msg \<Rightarrow> py_error + timing" where
  "convert_timing msg =
     (case int_of_float (Timing_delay msg) of
        Inl e \<Rightarrow> Inl e
      | Inr d \<Rightarrow> Inr (Timing d (convert_timepoint (Timing_timepoint msg))))"

text \<open>\<^verbatim>\<open>_convert_timed_interval\<close>: the lower timing is converted first.\<close>

definition convert_timed_interval :: "time_interval_msg \<Rightarrow> py_error + time_interval" where
  "convert_timed_interval msg =
     (case convert_timing (TimeInterval_lower msg) of
        Inl e \<Rightarrow> Inl e
      | Inr lo \<Rightarrow>
          (case convert_timing (TimeInterval_upper msg) of
             Inl e \<Rightarrow> Inl e
           | Inr up \<Rightarrow>
               Inr (TimeInterval lo up (TimeInterval_is_left_open msg)
                      (TimeInterval_is_right_open msg))))"

section \<open>The atom resolver\<close>

text \<open>
  An \<^verbatim>\<open>Atom\<close> message: \<^verbatim>\<open>WhichOneof("content")\<close> is \<^verbatim>\<open>None\<close> or names the one
  field that is set, \<^verbatim>\<open>int\<close>, \<^verbatim>\<open>real\<close>, \<^verbatim>\<open>boolean\<close> or \<^verbatim>\<open>symbol\<close>.
\<close>

datatype atom_msg =
  NoContent | IntContent int | RealContent py_float | BooleanContent bool | SymbolContent string

text \<open>\<^verbatim>\<open>msg.symbol\<close>: the default, the empty string, when another field is set.\<close>

definition Atom_symbol :: "atom_msg \<Rightarrow> string" where
  "Atom_symbol a = (case a of SymbolContent s \<Rightarrow> s | _ \<Rightarrow> [])"

text \<open>
  \<^verbatim>\<open>_convert_atom(self, msg, problem)\<close>, with \<^verbatim>\<open>self.current_action\<close> as the first
  argument. The handler of \<^verbatim>\<open>KeyError\<close> covers the lookup of the parameter only.
\<close>

definition convert_atom :: "'a action option \<Rightarrow> atom_msg \<Rightarrow> 'b problem \<Rightarrow> py_error + payload" where
  "convert_atom current_action msg problem =
     (case msg of
        NoContent \<Rightarrow> Inr PNone
      | IntContent v \<Rightarrow> Inr (PNode (em_Int v))
      | RealContent v \<Rightarrow> Inr (PNode (em_Real v))
      | BooleanContent v \<Rightarrow> Inr (PNode (em_Bool v))
      | SymbolContent v \<Rightarrow>
          if has_object problem v then map_sum id PObject (problem_object problem v)
          else
            (case current_action of
               Some a \<Rightarrow>
                 (case parameter a v of
                    Inr p \<Rightarrow> Inr (PNode (em_ParameterExp p))
                  | Inl e \<Rightarrow>
                      if e = KeyError then map_sum id PFluent (problem_fluent problem v)
                      else Inl e)
             | None \<Rightarrow> map_sum id PFluent (problem_fluent problem v)))"

section \<open>The expression rebuilder\<close>

datatype expression_kind =
    CONSTANT | PARAMETER | FLUENT_SYMBOL | FUNCTION_SYMBOL | STATE_VARIABLE
  | FUNCTION_APPLICATION | UNKNOWN_KIND int

datatype expression_msg =
  Expression (Expression_atom: atom_msg) (Expression_list: "expression_msg list")
    (Expression_kind: expression_kind) (Expression_type: string)

type_synonym param_map = "(string \<times> action_parameter) list"

text \<open>
  \<^verbatim>\<open>_convert_expression(self, msg, problem, param_map)\<close>: the atom is converted first,
  then the children from left to right, and only then the kind is looked at. An
  \<^verbatim>\<open>assert\<close> that fails is an \<^verbatim>\<open>AssertionError\<close>; \<^verbatim>\<open>msg.atom\<close> is a message and
  never \<^verbatim>\<open>None\<close>. A constant of another type than \<^verbatim>\<open>bool\<close>, \<^verbatim>\<open>int\<close> and
  \<^verbatim>\<open>real\<close>, and a kind that matches no branch, reach the final \<^verbatim>\<open>return\<close>.
\<close>

fun convert_expression ::
    "'a action option \<Rightarrow> expression_msg \<Rightarrow> 'b problem \<Rightarrow> param_map \<Rightarrow> py_error + fnode option"
  and convert_expression_list ::
    "'a action option \<Rightarrow> expression_msg list \<Rightarrow> 'b problem \<Rightarrow> param_map
       \<Rightarrow> py_error + fnode option list" where
  "convert_expression current_action (Expression atom lst kind ty) problem param_map =
     (case convert_atom current_action atom problem of
        Inl e \<Rightarrow> Inl e
      | Inr payload \<Rightarrow>
          (case convert_expression_list current_action lst problem param_map of
             Inl e \<Rightarrow> Inl e
           | Inr args \<Rightarrow>
               if kind = CONSTANT then
                 (if ty = ''bool'' then Inr (Some (FNode BOOL_CONSTANT args payload))
                  else if ty = ''int'' then Inr (Some (FNode INT_CONSTANT args payload))
                  else if ty = ''real'' then Inr (Some (FNode REAL_CONSTANT args payload))
                  else Inr None)
               else if kind = PARAMETER then
                 Inr (Some (FNode PARAM_EXP args
                        (PParam (ActionParameter (Atom_symbol atom) (UserType ty None)))))
               else if kind = FLUENT_SYMBOL then
                 (if has_fluent problem (Atom_symbol atom)
                  then Inr (Some (FNode FLUENT_EXP args payload))
                  else Inl AssertionError)
               else if kind = FUNCTION_SYMBOL then Inr None
               else if kind = STATE_VARIABLE then
                 (case convert_atom current_action atom problem of
                    Inl e \<Rightarrow> Inl e
                  | Inr _ \<Rightarrow> Inr (Some (FNode OBJECT_EXP [] payload)))
               else if kind = FUNCTION_APPLICATION then Inr None
               else Inr None))"
| "convert_expression_list current_action [] problem param_map = Inr []"
| "convert_expression_list current_action (m # ms) problem param_map =
     (case convert_expression current_action m problem param_map of
        Inl e \<Rightarrow> Inl e
      | Inr x \<Rightarrow>
          (case convert_expression_list current_action ms problem param_map of
             Inl e \<Rightarrow> Inl e
           | Inr xs \<Rightarrow> Inr (x # xs)))"

section \<open>The effect rebuilder\<close>

datatype effect_kind_msg = EK_ASSIGN | EK_INCREASE | EK_DECREASE | EK_other int

record effect_expression_msg =
  EffectExpression_kind :: effect_kind_msg
  EffectExpression_fluent :: expression_msg
  EffectExpression_value :: expression_msg
  EffectExpression_condition :: "expression_msg option"

definition convert_effect_kind :: "effect_kind_msg \<Rightarrow> effect_kind" where
  "convert_effect_kind k =
     (if k = EK_ASSIGN then ASSIGN
      else if k = EK_INCREASE then INCREASE
      else if k = EK_DECREASE then DECREASE
      else ASSIGN)"

text \<open>
  \<^verbatim>\<open>_convert_effect(self, msg, problem, param_map)\<close>: the arguments of \<^verbatim>\<open>Effect\<close> are
  converted in the order fluent, value, condition.
\<close>

definition convert_effect ::
    "'a action option \<Rightarrow> effect_expression_msg \<Rightarrow> 'b problem \<Rightarrow> param_map \<Rightarrow> py_error + effect" where
  "convert_effect current_action msg problem param_map =
     (let kind = convert_effect_kind (EffectExpression_kind msg) in
      case convert_expression current_action (EffectExpression_fluent msg) problem param_map of
        Inl e \<Rightarrow> Inl e
      | Inr f \<Rightarrow>
          (case convert_expression current_action (EffectExpression_value msg) problem param_map of
             Inl e \<Rightarrow> Inl e
           | Inr v \<Rightarrow>
               (case EffectExpression_condition msg of
                  Some cm \<Rightarrow>
                    (case convert_expression current_action cm problem param_map of
                       Inl e \<Rightarrow> Inl e
                     | Inr c \<Rightarrow> Inr (Effect f v (Some c) kind))
                | None \<Rightarrow> Inr (Effect f v None kind))))"

section \<open>The action rebuilder\<close>

record parameter_msg =
  Parameter_name :: string
  Parameter_type :: string

record condition_msg =
  Condition_cond :: expression_msg
  Condition_span :: "time_interval_msg option"

record effect_msg =
  Effect_effect :: effect_expression_msg
  Effect_occurence_time :: "timing_msg option"

text \<open>
  The \<^verbatim>\<open>Action\<close> message. The message kinds of its \<^verbatim>\<open>duration\<close> and \<^verbatim>\<open>cost\<close>
  fields are fixed by the wire schema, which is not among the sources, and with them the
  handler that converts them: such a sub-message is a value of a type \<open>'m\<close>.
\<close>

record 'm action_msg =
  Action_name :: string
  Action_parameters :: "parameter_msg list"
  Action_duration :: "'m option"
  Action_conditions :: "condition_msg list"
  Action_effects :: "effect_msg list"
  Action_cost :: "'m option"

text \<open>
  \<^verbatim>\<open>self.convert(m, problem)\<close> and \<^verbatim>\<open>self.convert(m)\<close> on such a sub-message are a
  parameter of the model: a function of the converter's current action, the sub-message
  and the problem (\<open>None\<close> when the call passes none), that raises or returns a value. It
  reads the converter's state and does not change it.
\<close>

type_synonym ('m, 'a) sub_converter =
  "'a action option \<Rightarrow> 'm \<Rightarrow> 'a problem option \<Rightarrow> py_error + 'a"

text \<open>\<^verbatim>\<open>_convert_parameter\<close>.\<close>

definition convert_parameter :: "parameter_msg \<Rightarrow> py_error + action_parameter" where
  "convert_parameter msg =
     (case convert_type_str (Parameter_type msg) of
        Inl e \<Rightarrow> Inl e
      | Inr t \<Rightarrow> Inr (ActionParameter (Parameter_name msg) t))"

text \<open>
  The first loop of \<^verbatim>\<open>_convert_action\<close>: \<^verbatim>\<open>parameters[param.name] = ...\<close> on an
  ordered dictionary (a later value for a name replaces the earlier one in its place).
\<close>

fun convert_parameters :: "parameter_msg list \<Rightarrow> param_map \<Rightarrow> py_error + param_map" where
  "convert_parameters [] parameters = Inr parameters"
| "convert_parameters (param # ps) parameters =
     (case convert_parameter param of
        Inl e \<Rightarrow> Inl e
      | Inr p \<Rightarrow> convert_parameters ps (AList.update (Parameter_name param) p parameters))"

text \<open>
  Modelled from the spec: the timed form of an attachment is tried first and fails with
  \<^verbatim>\<open>AttributeError\<close> when the sub-message has no span (no occurrence time); the
  reader then falls back to the plain form.
\<close>

definition try_add_condition ::
    "'a action \<Rightarrow> time_interval_msg option \<Rightarrow> fnode \<Rightarrow> py_error + 'a action" where
  "try_add_condition a interval expr =
     (case interval of
        None \<Rightarrow> Inl AttributeError
      | Some sp \<Rightarrow>
          (case convert_timed_interval sp of
             Inl e \<Rightarrow> Inl e
           | Inr iv \<Rightarrow> Inr (add_condition a iv expr)))"

definition try_add_timed_effect ::
    "'a action \<Rightarrow> timing_msg option \<Rightarrow> fnode \<Rightarrow> fnode \<Rightarrow> py_error + 'a action" where
  "try_add_timed_effect a occ f v =
     (case occ of
        None \<Rightarrow> Inl AttributeError
      | Some tm \<Rightarrow>
          (case convert_timing tm of
             Inl e \<Rightarrow> Inl e
           | Inr t \<Rightarrow> Inr (add_timed_effect a t f v)))"

text \<open>
  The loop over \<^verbatim>\<open>msg.conditions\<close>. The action under construction is the converter's
  current action, so atoms are resolved against it. The result is the action as far as it
  was built, and the exception that ended the loop, if any.
\<close>

fun convert_conditions ::
    "condition_msg list \<Rightarrow> 'b problem \<Rightarrow> param_map \<Rightarrow> 'a action \<Rightarrow> py_error option \<times> 'a action" where
  "convert_conditions [] problem parameters action = (None, action)"
| "convert_conditions (cond # cs) problem parameters action =
     (case convert_expression (Some action) (Condition_cond cond) problem parameters of
        Inl e \<Rightarrow> (Some e, action)
      | Inr None \<Rightarrow> convert_conditions cs problem parameters action
      | Inr (Some expr) \<Rightarrow>
          (case try_add_condition action (Condition_span cond) expr of
             Inr action' \<Rightarrow> convert_conditions cs problem parameters action'
           | Inl e \<Rightarrow>
               if e = AttributeError
               then convert_conditions cs problem parameters (add_precondition action expr)
               else (Some e, action)))"

text \<open>
  The loop over \<^verbatim>\<open>msg.effects\<close>: an effect whose fluent or value is \<^verbatim>\<open>None\<close> is
  passed over (\<^verbatim>\<open>continue\<close>).
\<close>

fun convert_effects ::
    "effect_msg list \<Rightarrow> 'b problem \<Rightarrow> param_map \<Rightarrow> 'a action \<Rightarrow> py_error option \<times> 'a action" where
  "convert_effects [] problem parameters action = (None, action)"
| "convert_effects (eff # es) problem parameters action =
     (case convert_effect (Some action) (Effect_effect eff) problem parameters of
        Inl e \<Rightarrow> (Some e, action)
      | Inr expr \<Rightarrow>
          (case (effect_fluent expr, effect_value expr) of
             (Some f, Some v) \<Rightarrow>
               (case try_add_timed_effect action (Effect_occurence_time eff) f v of
                  Inr action' \<Rightarrow> convert_effects es problem parameters action'
                | Inl e \<Rightarrow>
                    if e = AttributeError
                    then convert_effects es problem parameters (add_effect action f v)
                    else (Some e, action))
           | _ \<Rightarrow> convert_effects es problem parameters action))"

text \<open>
  The choice of the class in \<^verbatim>\<open>_convert_action\<close>: a durative action with the
  converted duration as its constraint when the message has a duration, an instantaneous
  action when it has none.
\<close>

definition convert_duration ::
    "('m, 'a) sub_converter \<Rightarrow> 'a action option \<Rightarrow> 'm action_msg \<Rightarrow> 'a problem \<Rightarrow> param_map
       \<Rightarrow> py_error + 'a action" where
  "convert_duration convert current_action msg problem parameters =
     (case Action_duration msg of
        Some d \<Rightarrow>
          (case convert current_action d (Some problem) of
             Inl e \<Rightarrow> Inl e
           | Inr dc \<Rightarrow>
               Inr (set_duration_constraint
                      (new_action DurativeAction (Action_name msg) parameters) dc))
      | None \<Rightarrow> Inr (new_action InstantaneousAction (Action_name msg) parameters))"

text \<open>The end of \<^verbatim>\<open>_convert_action\<close>: the cost, when the message has one.\<close>

definition convert_cost ::
    "('m, 'a) sub_converter \<Rightarrow> 'm action_msg \<Rightarrow> 'a problem \<Rightarrow> 'a action \<Rightarrow> py_error + 'a action" where
  "convert_cost convert msg problem action =
     (case Action_cost msg of
        None \<Rightarrow> Inr action
      | Some c \<Rightarrow>
          (case convert (Some action) c (Some problem) of
             Inl e \<Rightarrow> Inl e
           | Inr v \<Rightarrow> Inr (set_cost action v)))"

text \<open>
  \<^verbatim>\<open>_convert_action(self, msg, problem)\<close>. The result is what the call raises or
  returns, together with \<^verbatim>\<open>self.current_action\<close> after the call. The duration is
  converted before the assignment \<^verbatim>\<open>self.current_action = action\<close>, the conditions,
  the effects and the cost after it; nothing assigns \<^verbatim>\<open>self.current_action\<close> again.
\<close>

definition convert_action ::
    "('m, 'a) sub_converter \<Rightarrow> 'a action option \<Rightarrow> 'm action_msg \<Rightarrow> 'a problem
       \<Rightarrow> (py_error + 'a action) \<times> 'a action option" where
  "convert_action convert current_action msg problem =
     (case convert_parameters (Action_parameters msg) [] of
        Inl e \<Rightarrow> (Inl e, current_action)
      | Inr parameters \<Rightarrow>
          (case convert_duration convert current_action msg problem parameters of
             Inl e \<Rightarrow> (Inl e, current_action)
           | Inr action \<Rightarrow>
               (case convert_conditions (Action_conditions msg) problem parameters action of
                  (Some e, action) \<Rightarrow> (Inl e, Some action)
                | (None, action) \<Rightarrow>
                    (case convert_effects (Action_effects msg) problem parameters action of
                       (Some e, action) \<Rightarrow> (Inl e, Some action)
                     | (None, action) \<Rightarrow>
                         (case convert_cost convert msg problem action of
                            Inl e \<Rightarrow> (Inl e, Some action)
                          | Inr action \<Rightarrow> (Inr action, Some action))))))"

section \<open>Objects, fluents, problems and plans\<close>

text \<open>
  A loop that appends \<open>f x\<close> for each \<open>x\<close> of a list, from the left; the first exception
  ends it.
\<close>

fun map_raise :: "('x \<Rightarrow> py_error + 'y) \<Rightarrow> 'x list \<Rightarrow> py_error + 'y list" where
  "map_raise f [] = Inr []"
| "map_raise f (x # xs) =
     (case f x of
        Inl e \<Rightarrow> Inl e
      | Inr y \<Rightarrow> (case map_raise f xs of Inl e \<Rightarrow> Inl e | Inr ys \<Rightarrow> Inr (y # ys)))"

text \<open>A loop whose body \<open>step x\<close> updates the problem under construction.\<close>

fun add_each :: "('x \<Rightarrow> 'p \<Rightarrow> py_error + 'p) \<Rightarrow> 'x list \<Rightarrow> 'p \<Rightarrow> py_error + 'p" where
  "add_each step [] p = Inr p"
| "add_each step (x # xs) p =
     (case step x p of Inl e \<Rightarrow> Inl e | Inr p' \<Rightarrow> add_each step xs p')"

record object_msg =
  ObjectDeclaration_name :: string
  ObjectDeclaration_type :: string

record fluent_msg =
  Fluent_name :: string
  Fluent_value_type :: string
  Fluent_parameters :: "parameter_msg list"

text \<open>\<^verbatim>\<open>_convert_object\<close>.\<close>

definition convert_object :: "object_msg \<Rightarrow> up_object" where
  "convert_object msg =
     Object (ObjectDeclaration_name msg) (UserType (ObjectDeclaration_type msg) None)"

text \<open>\<^verbatim>\<open>_convert_fluent\<close>: the names of the parameters are not read.\<close>

definition convert_fluent :: "fluent_msg \<Rightarrow> py_error + fluent" where
  "convert_fluent msg =
     (case convert_type_str (Fluent_value_type msg) of
        Inl e \<Rightarrow> Inl e
      | Inr value_type \<Rightarrow>
          (case map_raise (\<lambda>p. convert_type_str (Parameter_type p)) (Fluent_parameters msg) of
             Inl e \<Rightarrow> Inl e
           | Inr sig \<Rightarrow> Inr (Fluent (Fluent_name msg) value_type sig)))"

text \<open>
  The \<^verbatim>\<open>Assignment\<close>, \<^verbatim>\<open>Goal\<close> and \<^verbatim>\<open>Problem\<close> messages. The message kinds of
  the two sides of an assignment, of the body and the timing of a goal and of a timed
  effect are fixed by the wire schema, as those of the duration and the cost of an action.
\<close>

record 'm assignment_msg =
  Assignment_fluent :: 'm
  Assignment_value :: 'm

record 'm goal_msg =
  Goal_goal :: 'm
  Goal_timing :: 'm

record 'm problem_msg =
  Problem_problem_name :: string
  Problem_objects :: "object_msg list"
  Problem_fluents :: "fluent_msg list"
  Problem_actions :: "'m action_msg list"
  Problem_timed_effects :: "'m list"
  Problem_initial_state :: "'m assignment_msg list"
  Problem_goals :: "'m goal_msg list"

text \<open>\<^verbatim>\<open>_convert_initial_state\<close>: the pair of the two converted sides.\<close>

definition convert_initial_state ::
    "('m, 'a) sub_converter \<Rightarrow> 'a action option \<Rightarrow> 'm assignment_msg \<Rightarrow> 'a problem
       \<Rightarrow> py_error + ('a \<times> 'a)" where
  "convert_initial_state convert current_action msg problem =
     (case convert current_action (Assignment_fluent msg) (Some problem) of
        Inl e \<Rightarrow> Inl e
      | Inr f \<Rightarrow>
          (case convert current_action (Assignment_value msg) (Some problem) of
             Inl e \<Rightarrow> Inl e
           | Inr v \<Rightarrow> Inr (f, v)))"

text \<open>
  \<^verbatim>\<open>_convert_goal\<close>: \<^verbatim>\<open>msg.timing\<close> is a message and never \<^verbatim>\<open>None\<close>, so the timing
  is converted (without the problem) and then dropped.
\<close>

definition convert_goal ::
    "('m, 'a) sub_converter \<Rightarrow> 'a action option \<Rightarrow> 'm goal_msg \<Rightarrow> 'a problem \<Rightarrow> py_error + 'a" where
  "convert_goal convert current_action msg problem =
     (case convert current_action (Goal_goal msg) (Some problem) of
        Inl e \<Rightarrow> Inl e
      | Inr goal \<Rightarrow>
          (case convert current_action (Goal_timing msg) None of
             Inl e \<Rightarrow> Inl e
           | Inr timing \<Rightarrow> Inr goal))"

text \<open>
  The loop over \<^verbatim>\<open>msg.actions\<close> of \<^verbatim>\<open>_convert_problem\<close>: each action is converted
  with the current action its predecessor left behind, and added to the new problem.
\<close>

fun convert_actions ::
    "('m, 'a) sub_converter \<Rightarrow> 'a action option \<Rightarrow> 'm action_msg list \<Rightarrow> 'a problem
       \<Rightarrow> 'a problem \<Rightarrow> (py_error + 'a problem) \<times> 'a action option" where
  "convert_actions convert current_action [] problem new = (Inr new, current_action)"
| "convert_actions convert current_action (m # ms) problem new =
     (case convert_action convert current_action m problem of
        (Inl e, current_action') \<Rightarrow> (Inl e, current_action')
      | (Inr a, current_action') \<Rightarrow>
          (case add_action new a of
             Inl e \<Rightarrow> (Inl e, current_action')
           | Inr new' \<Rightarrow> convert_actions convert current_action' ms problem new'))"

text \<open>
  \<^verbatim>\<open>_convert_problem(self, msg, problem)\<close>: objects, fluents, actions, timed effects,
  initial values and goals are added in this order to a new problem. The first two loops
  neither read nor change the reader's current action; the last three read it.
\<close>

definition convert_declarations :: "'m problem_msg \<Rightarrow> py_error + 'a problem" where
  "convert_declarations msg =
     (case add_each (\<lambda>ob new. add_object new (convert_object ob)) (Problem_objects msg)
             (new_problem (Problem_problem_name msg)) of
        Inl e \<Rightarrow> Inl e
      | Inr new1 \<Rightarrow>
          add_each (\<lambda>f new. case convert_fluent f of
                               Inl e \<Rightarrow> Inl e
                             | Inr fl \<Rightarrow> add_fluent new fl)
            (Problem_fluents msg) new1)"

definition convert_statements ::
    "('m, 'a) sub_converter \<Rightarrow> 'a action option \<Rightarrow> 'm problem_msg \<Rightarrow> 'a problem
       \<Rightarrow> 'a problem \<Rightarrow> py_error + 'a problem" where
  "convert_statements convert current_action msg problem new3 =
     (case add_each (\<lambda>eff new.
               case convert current_action eff (Some problem) of
                 Inl e \<Rightarrow> Inl e
               | Inr v \<Rightarrow> add_problem_timed_effect new v)
             (Problem_timed_effects msg) new3 of
        Inl e \<Rightarrow> Inl e
      | Inr new4 \<Rightarrow>
          (case add_each (\<lambda>assign new.
                    case convert_initial_state convert current_action assign problem of
                      Inl e \<Rightarrow> Inl e
                    | Inr (fluent, v) \<Rightarrow> set_initial_value new fluent v)
                  (Problem_initial_state msg) new4 of
             Inl e \<Rightarrow> Inl e
           | Inr new5 \<Rightarrow>
               add_each (\<lambda>goal new.
                   case convert_goal convert current_action goal problem of
                     Inl e \<Rightarrow> Inl e
                   | Inr g \<Rightarrow> add_goal new g)
                 (Problem_goals msg) new5))"

definition convert_problem ::
    "('m, 'a) sub_converter \<Rightarrow> 'a action option \<Rightarrow> 'm problem_msg \<Rightarrow> 'a problem
       \<Rightarrow> (py_error + 'a problem) \<times> 'a action option" where
  "convert_problem convert current_action msg problem =
     (case convert_declarations msg of
        Inl e \<Rightarrow> (Inl e, current_action)
      | Inr new2 \<Rightarrow>
          (case convert_actions convert current_action (Problem_actions msg) problem new2 of
             (Inl e, current_action') \<Rightarrow> (Inl e, current_action')
           | (Inr new3, current_action') \<Rightarrow>
               (convert_statements convert current_action' msg problem new3, current_action')))"

record action_instance_msg =
  ActionInstance_action_name :: string
  ActionInstance_parameters :: "atom_msg list"

record plan_msg =
  Plan_actions :: "action_instance_msg list"

text \<open>
  \<^verbatim>\<open>_convert_action_instance\<close>: every parameter is asserted to be a symbol that names
  an object of the problem; the action is looked up after the loop.
\<close>

definition convert_instance_parameter :: "'a problem \<Rightarrow> atom_msg \<Rightarrow> py_error + fnode" where
  "convert_instance_parameter problem param =
     (case param of
        SymbolContent s \<Rightarrow>
          if has_object problem s
          then map_sum id (\<lambda>ob. FNode OBJECT_EXP [] (PObject ob)) (problem_object problem s)
          else Inl AssertionError
      | _ \<Rightarrow> Inl AssertionError)"

definition convert_action_instance ::
    "action_instance_msg \<Rightarrow> 'a problem \<Rightarrow> py_error + 'a action_instance" where
  "convert_action_instance msg problem =
     (case map_raise (convert_instance_parameter problem) (ActionInstance_parameters msg) of
        Inl e \<Rightarrow> Inl e
      | Inr parameters \<Rightarrow>
          (case problem_action problem (ActionInstance_action_name msg) of
             Inl e \<Rightarrow> Inl e
           | Inr a \<Rightarrow> Inr (ActionInstance a parameters)))"

text \<open>\<^verbatim>\<open>_convert_plan\<close>.\<close>

definition convert_plan :: "plan_msg \<Rightarrow> 'a problem \<Rightarrow> py_error + 'a plan" where
  "convert_plan msg problem =
     (case map_raise (\<lambda>a. convert_action_instance a problem) (Plan_actions msg) of
        Inl e \<Rightarrow> Inl e
      | Inr as \<Rightarrow> Inr (SequentialPlan as))"

section \<open>The converter\<close>

text \<open>
  A wire message of one of the sixteen kinds the reader has a handler for, with the
  parameter map where the handler takes one, and what its handler returns.
\<close>

datatype 'm wire_msg =
    M_Parameter parameter_msg
  | M_Fluent fluent_msg
  | M_ObjectDeclaration object_msg
  | M_Expression expression_msg param_map
  | M_Atom atom_msg
  | M_TypeDeclaration type_declaration_msg
  | M_Problem "'m problem_msg"
  | M_Assignment "'m assignment_msg"
  | M_Goal "'m goal_msg"
  | M_Action "'m action_msg"
  | M_EffectExpression effect_expression_msg param_map
  | M_TimeInterval time_interval_msg
  | M_Timing timing_msg
  | M_Timepoint timepoint_msg
  | M_Plan plan_msg
  | M_ActionInstance action_instance_msg

datatype 'a converted =
    V_Parameter action_parameter
  | V_Fluent fluent
  | V_Object up_object
  | V_Expression "fnode option"
  | V_Atom payload
  | V_Type up_type
  | V_Problem "'a problem"
  | V_Assignment "'a \<times> 'a"
  | V_Goal 'a
  | V_Action "'a action"
  | V_Effect effect
  | V_TimeInterval time_interval
  | V_Timing timing
  | V_Timepoint "timepoint option"
  | V_Plan "'a plan"
  | V_ActionInstance "'a action_instance"

text \<open>
  Modelled from the spec: the class \<^verbatim>\<open>Converter\<close>, whose \<^verbatim>\<open>convert\<close> the reader
  inherits, is not among the sources. \<^verbatim>\<open>convert\<close> looks up the handler registered for
  the kind of the message and calls it with the message and the extra arguments. Here it
  is one conversion on a reader whose current action is \<open>current_action\<close>: the handler
  of the message's kind, called with the problem template where it takes one. The result
  is what the call raises or returns, and the reader's current action after the call.
\<close>

definition convert ::
    "('m, 'a) sub_converter \<Rightarrow> 'a action option \<Rightarrow> 'm wire_msg \<Rightarrow> 'a problem
       \<Rightarrow> (py_error + 'a converted) \<times> 'a action option" where
  "convert sub current_action msg problem =
     (case msg of
        M_Parameter m \<Rightarrow> (map_sum id V_Parameter (convert_parameter m), current_action)
      | M_Fluent m \<Rightarrow> (map_sum id V_Fluent (convert_fluent m), current_action)
      | M_ObjectDeclaration m \<Rightarrow> (Inr (V_Object (convert_object m)), current_action)
      | M_Expression m param_map \<Rightarrow>
          (map_sum id V_Expression (convert_expression current_action m problem param_map),
           current_action)
      | M_Atom m \<Rightarrow> (map_sum id V_Atom (convert_atom current_action m problem), current_action)
      | M_TypeDeclaration m \<Rightarrow> (map_sum id V_Type (convert_type_declaration m), current_action)
      | M_Problem m \<Rightarrow>
          (case convert_problem sub current_action m problem of
             (r, current_action') \<Rightarrow> (map_sum id V_Problem r, current_action'))
      | M_Assignment m \<Rightarrow>
          (map_sum id V_Assignment (convert_initial_state sub current_action m problem),
           current_action)
      | M_Goal m \<Rightarrow> (map_sum id V_Goal (convert_goal sub current_action m problem), current_action)
      | M_Action m \<Rightarrow>
          (case convert_action sub current_action m problem of
             (r, current_action') \<Rightarrow> (map_sum id V_Action r, current_action'))
      | M_EffectExpression m param_map \<Rightarrow>
          (map_sum id V_Effect (convert_effect current_action m problem param_map), current_action)
      | M_TimeInterval m \<Rightarrow> (map_sum id V_TimeInterval (convert_timed_interval m), current_action)
      | M_Timing m \<Rightarrow> (map_sum id V_Timing (convert_timing m), current_action)
      | M_Timepoint m \<Rightarrow> (Inr (V_Timepoint (convert_timepoint m)), current_action)
      | M_Plan m \<Rightarrow> (map_sum id V_Plan (convert_plan m problem), current_action)
      | M_ActionInstance m \<Rightarrow>
          (map_sum id V_ActionInstance (convert_action_instance m problem), current_action))"


section \<open>Example data\<close>

text \<open>
  A converter of sub-messages that carry no data, a problem template with the object
  \<^verbatim>\<open>r1\<close> and the fluent \<^verbatim>\<open>loc\<close>, and a few messages.
\<close>

definition unit_converter :: "(unit, unit) sub_converter" where
  "unit_converter current_action m problem = Inr ()"

definition room :: up_type where
  "room = UserType ''room'' None"

definition example_problem :: "unit problem" where
  "example_problem =
     \<lparr>problem_name = ''template'',
      objects = [(''r1'', Object ''r1'' room)],
      fluents = [(''loc'', Fluent ''loc'' room [])],
      actions = [], timed_effects = [], initial_values = [], goals = []\<rparr>"

definition move_msg :: "unit action_msg" where
  "move_msg =
     \<lparr>Action_name = ''move'',
      Action_parameters = [\<lparr>Parameter_name = ''to'', Parameter_type = ''room''\<rparr>],
      Action_duration = None, Action_conditions = [], Action_effects = [],
      Action_cost = None\<rparr>"

definition move :: "unit action" where
  "move = new_action InstantaneousAction ''move'' [(''to'', ActionParameter ''to'' room)]"



text \<open>An action whose parameter has the name of the object \<^verbatim>\<open>r1\<close>.\<close>

definition shadow :: "unit action" where
  "shadow = new_action InstantaneousAction ''shadow'' [(''r1'', ActionParameter ''r1'' BoolType)]"

text \<open>
  Two effects on \<^verbatim>\<open>loc\<close>: the value of the first is a function application, which the
  reader does not rebuild; the value of the second is the object \<^verbatim>\<open>r1\<close>.
\<close>

definition loc_exp :: expression_msg where
  "loc_exp = Expression (SymbolContent ''loc'') [] FLUENT_SYMBOL ''room''"

definition unsupported_effect :: effect_msg where
  "unsupported_effect =
     \<lparr>Effect_effect =
        \<lparr>EffectExpression_kind = EK_ASSIGN, EffectExpression_fluent = loc_exp,
         EffectExpression_value = Expression NoContent [] FUNCTION_APPLICATION [],
         EffectExpression_condition = None\<rparr>,
      Effect_occurence_time = None\<rparr>"

definition supported_effect :: effect_msg where
  "supported_effect =
     \<lparr>Effect_effect =
        \<lparr>EffectExpression_kind = EK_ASSIGN, EffectExpression_fluent = loc_exp,
         EffectExpression_value = Expression (SymbolContent ''r1'') [] STATE_VARIABLE ''room'',
         EffectExpression_condition = None\<rparr>,
      Effect_occurence_time = None\<rparr>"

definition loc_node :: fnode where
  "loc_node = FNode FLUENT_EXP [] (PFluent (Fluent ''loc'' room []))"

definition r1_node :: fnode where
  "r1_node = FNode OBJECT_EXP [] (PObject (Object ''r1'' room))"

section \<open>Properties of the type decoder\<close>

text \<open>
  C1. A descriptor \<^verbatim>\<open>integer[lo, hi]\<close> should decode to an integer type that keeps
  both a finite lower and a finite upper bound. The reader does not: on
  \<^verbatim>\<open>integer[0, 10]\<close> it returns the type with the lower bound 0 and no upper bound,
  because the upper bound is read in the \<^verbatim>\<open>elif\<close> branch of the test of the lower one.
\<close>

theorem integer_upper_bound_dropped:
  "convert_type_declaration \<lparr>type_name = ''integer[0, 10]'', parent_type = ''''\<rparr>
     = Inr (IntType (Some 0) None)"
  by code_simp

text \<open>
  C6. A descriptor that is neither \<^verbatim>\<open>bool\<close> nor of a bracketed form should decode to a
  user type that has a parent only when one is declared. The reader attaches a parent
  always: for the type \<^verbatim>\<open>robot\<close> declared without a parent (the parent field is the
  empty string) it returns \<^verbatim>\<open>robot\<close> with the parent type of the empty name.
\<close>

theorem undeclared_parent_attached:
  "convert_type_declaration \<lparr>type_name = ''robot'', parent_type = ''''\<rparr>
     = Inr (UserType ''robot'' (Some (UserType '''' None)))"
  by code_simp

text \<open>
  C7. A descriptor \<^verbatim>\<open>real[lo, hi]\<close> with finite bounds should decode to a real type
  with the exact rational values of both bounds. The reader parses the lower bound
  exactly and drops the upper one: on \<^verbatim>\<open>real[0.1, 0.2]\<close> it returns the type with the
  lower bound 1/10 and no upper bound.
\<close>

theorem real_upper_bound_dropped:
  "convert_type_declaration \<lparr>type_name = ''real[0.1, 0.2]'', parent_type = ''''\<rparr>
     = Inr (RealType (Some (Fraction (1 / 10))) None)"
  by code_simp

text \<open>
  What the reader does on every declaration: an integer or real type never has both
  bounds, and a user type always has a parent.
\<close>

lemma read_bounds_one_sided:
  "read_bounds parse tmp = Inr (lb, ub) \<Longrightarrow> lb = None \<or> ub = None"
  by (auto simp: read_bounds_def split: sum.splits if_splits)

lemma integer_never_two_bounds:
  "convert_type_declaration msg = Inr (IntType lb ub) \<Longrightarrow> lb = None \<or> ub = None"
  by (auto simp: convert_type_declaration_def split: sum.splits if_splits
      dest: read_bounds_one_sided)

lemma real_never_two_bounds:
  "convert_type_declaration msg = Inr (RealType lb ub) \<Longrightarrow> lb = None \<or> ub = None"
  by (auto simp: convert_type_declaration_def split: sum.splits if_splits
      dest: read_bounds_one_sided)

lemma user_type_always_parent:
  "convert_type_declaration msg = Inr (UserType n parent)
   \<Longrightarrow> parent = Some (UserType (parent_type msg) None)"
  by (auto simp: convert_type_declaration_def split: sum.splits if_splits)

lemma split_scan_absent:
  "c \<notin> set s \<Longrightarrow> split_scan (c # cs) acc 0 s = [rev acc @ s]"
  by (induction s arbitrary: acc) auto

lemma split_scan_char:
  "c \<notin> set s \<Longrightarrow> split_scan [c] acc 0 (s @ c # t) = (rev acc @ s) # split_scan [c] [] 0 t"
  by (induction s arbitrary: acc) auto

lemma split_scan_comma_space:
  "CHR '','' \<notin> set s \<Longrightarrow>
     split_scan '', '' acc 0 (s @ '', '' @ t) = (rev acc @ s) # split_scan '', '' [] 0 t"
  by (induction s arbitrary: acc) auto

lemma bounds_of_descriptor:
  assumes "CHR ''['' \<notin> set kw" "CHR ''['' \<notin> set lo \<union> set hi" "CHR '']'' \<notin> set lo \<union> set hi"
    "CHR '','' \<notin> set lo \<union> set hi"
  shows "bounds_of (kw @ ''['' @ lo @ '', '' @ hi @ '']'') = Inr [lo, hi]"
proof -
  let ?inner = "lo @ '', '' @ hi"
  have 1: "split (kw @ ''['' @ ?inner @ '']'') ''['' = [kw, ?inner @ '']'']"
    using assms split_scan_char [of "CHR ''[''" kw "[]" "?inner @ '']''"]
      split_scan_absent [of "CHR ''[''" "?inner @ '']''" "[]" "[]"]
    by (simp add: split_def)
  have 2: "split (?inner @ '']'') '']'' = [?inner, []]"
    using assms split_scan_char [of "CHR '']''" ?inner "[]" "[]"]
    by (simp add: split_def)
  have 3: "split ?inner '', '' = [lo, hi]"
    using assms split_scan_comma_space [of lo "[]" hi]
      split_scan_absent [of "CHR '',''" hi "'' ''" "[]"]
    by (simp add: split_def)
  have "item (split (kw @ ''['' @ ?inner @ '']'') ''['') 1 = Inr (?inner @ '']'')"
    unfolding 1 by (simp add: item_def)
  moreover have "item (split (?inner @ '']'') '']'') 0 = Inr ?inner"
    unfolding 2 by (simp add: item_def)
  ultimately have "bounds_of (kw @ ''['' @ ?inner @ '']'') = Inr (split ?inner '', '')"
    unfolding bounds_of_def by (simp only: sum.case)
  then show ?thesis
    unfolding 3 by simp
qed

text \<open>
  What the reader returns for a descriptor \<^verbatim>\<open>integer[lo, hi]\<close> or \<^verbatim>\<open>real[lo, hi]\<close>
  whose bounds hold no bracket and no comma: the lower bound alone when it is not
  \<^verbatim>\<open>-inf\<close>, otherwise the upper bound alone when it is not \<^verbatim>\<open>inf\<close>, otherwise
  no bound; an exception of the parser of the bound is the exception of the call.
\<close>

lemma integer_descriptor:
  assumes "CHR ''['' \<notin> set lo \<union> set hi" "CHR '']'' \<notin> set lo \<union> set hi"
    "CHR '','' \<notin> set lo \<union> set hi"
  shows "convert_type_declaration \<lparr>type_name = ''integer['' @ lo @ '', '' @ hi @ '']'', parent_type = pt\<rparr>
     = (if lo \<noteq> ''-inf'' then map_sum id (\<lambda>l. IntType (Some l) None) (py_int lo)
        else if hi \<noteq> ''inf'' then map_sum id (\<lambda>u. IntType None (Some u)) (py_int hi)
        else Inr (IntType None None))"
proof -
  have "bounds_of (''integer'' @ ''['' @ lo @ '', '' @ hi @ '']'') = Inr [lo, hi]"
    using assms by (intro bounds_of_descriptor) simp_all
  then show ?thesis
    by (simp add: convert_type_declaration_def startswith_def read_bounds_def item_def
        split: sum.splits)
qed

lemma real_descriptor:
  assumes "CHR ''['' \<notin> set lo \<union> set hi" "CHR '']'' \<notin> set lo \<union> set hi"
    "CHR '','' \<notin> set lo \<union> set hi"
  shows "convert_type_declaration \<lparr>type_name = ''real['' @ lo @ '', '' @ hi @ '']'', parent_type = pt\<rparr>
     = (if lo \<noteq> ''-inf'' then map_sum id (\<lambda>l. RealType (Some (Fraction l)) None) (py_Fraction lo)
        else if hi \<noteq> ''inf'' then map_sum id (\<lambda>u. RealType None (Some (Fraction u))) (py_Fraction hi)
        else Inr (RealType None None))"
proof -
  have "bounds_of (''real'' @ ''['' @ lo @ '', '' @ hi @ '']'') = Inr [lo, hi]"
    using assms by (intro bounds_of_descriptor) simp_all
  then show ?thesis
    by (simp add: convert_type_declaration_def startswith_def read_bounds_def item_def
        split: sum.splits)
qed

section \<open>The current action is read through its parameters only\<close>

lemma convert_atom_scope:
  "map_option act_parameters cur = map_option act_parameters cur'
   \<Longrightarrow> convert_atom cur m p = convert_atom cur' m p"
  by (cases cur; cases cur') (auto simp: convert_atom_def parameter_def split: atom_msg.splits)

lemma convert_expression_scope:
  fixes cur :: "'a action option" and cur' :: "'b action option"
  assumes "map_option act_parameters cur = map_option act_parameters cur'"
  shows "convert_expression cur m p pm = convert_expression cur' m p pm"
    and "convert_expression_list cur ms p pm = convert_expression_list cur' ms p pm"
  using assms
proof (induction cur m p pm and cur ms p pm rule: convert_expression_convert_expression_list.induct)
  case (1 current_action atom lst kind ty problem param_map)
  then show ?case
    using convert_atom_scope [of current_action cur' atom problem]
    by (simp split: sum.splits)
next
  case (2 current_action problem param_map)
  then show ?case by simp
next
  case (3 current_action m ms problem param_map)
  then show ?case by (simp split: sum.splits)
qed

lemma convert_effect_scope:
  "map_option act_parameters cur = map_option act_parameters cur'
   \<Longrightarrow> convert_effect cur m p pm = convert_effect cur' m p pm"
  unfolding convert_effect_def
  by (simp add: convert_expression_scope(1) [of cur cur'] cong: sum.case_cong option.case_cong)

lemma attach_fields [simp]:
  "act_parameters (add_condition a iv x) = act_parameters a"
  "act_parameters (add_precondition a x) = act_parameters a"
  "act_parameters (add_timed_effect a t f v) = act_parameters a"
  "act_parameters (add_effect a f v) = act_parameters a"
  "act_class (add_condition a iv x) = act_class a"
  "act_class (add_precondition a x) = act_class a"
  "act_class (add_timed_effect a t f v) = act_class a"
  "act_class (add_effect a f v) = act_class a"
  "act_duration (add_condition a iv x) = act_duration a"
  "act_duration (add_precondition a x) = act_duration a"
  "act_duration (add_timed_effect a t f v) = act_duration a"
  "act_duration (add_effect a f v) = act_duration a"
  "act_effects (add_condition a iv x) = act_effects a"
  "act_effects (add_precondition a x) = act_effects a"
  "act_effects (add_timed_effect a t f v) = act_effects a @ [(Some t, f, v)]"
  "act_effects (add_effect a f v) = act_effects a @ [(None, f, v)]"
  by (simp_all add: add_condition_def add_precondition_def add_timed_effect_def add_effect_def)

lemma convert_conditions_frame:
  "convert_conditions cs p pm a = (r, a') \<Longrightarrow>
     act_parameters a' = act_parameters a \<and> act_class a' = act_class a
     \<and> act_duration a' = act_duration a \<and> act_effects a' = act_effects a"
proof (induction cs arbitrary: a)
  case Nil
  then show ?case by simp
next
  case (Cons c cs)
  then show ?case
    by (auto simp: try_add_condition_def split: sum.splits option.splits if_splits)
qed

lemma convert_effects_frame:
  "convert_effects es p pm a = (r, a') \<Longrightarrow>
     act_parameters a' = act_parameters a \<and> act_class a' = act_class a
     \<and> act_duration a' = act_duration a"
proof (induction es arbitrary: a)
  case Nil
  then show ?case by simp
next
  case (Cons c cs)
  then show ?case
    by (auto simp: try_add_timed_effect_def split: sum.splits option.splits if_splits)
qed

lemma convert_duration_fields:
  assumes "convert_duration c s m p ps = Inr a"
  shows "act_parameters a = ps" "act_effects a = []"
    "act_class a = DurativeAction \<longleftrightarrow> Action_duration m \<noteq> None"
    "act_class a = InstantaneousAction \<longleftrightarrow> Action_duration m = None"
    "\<forall>d. Action_duration m = Some d \<longrightarrow> (\<exists>v. c s d (Some p) = Inr v \<and> act_duration a = Some v)"
  using assms
  by (auto simp: convert_duration_def new_action_def set_duration_constraint_def
      split: option.splits sum.splits)

lemma convert_cost_fields:
  assumes "convert_cost c m p a = Inr a'"
  shows "act_parameters a' = act_parameters a" "act_class a' = act_class a"
    "act_duration a' = act_duration a" "act_effects a' = act_effects a"
  using assms
  by (auto simp: convert_cost_def set_cost_def split: option.splits sum.splits)

text \<open>The stages that a conversion which returns an action has gone through.\<close>

lemma convert_action_returns:
  fixes b :: "'a action"
  assumes "fst (convert_action c s m p) = Inr b"
  obtains ps and a0 a1 a2 :: "'a action" where
    "convert_parameters (Action_parameters m) [] = Inr ps"
    "convert_duration c s m p ps = Inr a0"
    "convert_conditions (Action_conditions m) p ps a0 = (None, a1)"
    "convert_effects (Action_effects m) p ps a1 = (None, a2)"
    "convert_cost c m p a2 = Inr b"
    "snd (convert_action c s m p) = Some b"
proof -
  obtain ps where ps: "convert_parameters (Action_parameters m) [] = Inr ps"
    using assms by (cases "convert_parameters (Action_parameters m) []")
      (simp_all add: convert_action_def)
  obtain a0 where a0: "convert_duration c s m p ps = Inr a0"
    using assms ps by (cases "convert_duration c s m p ps") (simp_all add: convert_action_def)
  obtain r1 a1 where c1: "convert_conditions (Action_conditions m) p ps a0 = (r1, a1)"
    by (cases "convert_conditions (Action_conditions m) p ps a0")
  have r1: "r1 = None"
    using assms ps a0 c1 by (cases r1) (simp_all add: convert_action_def)
  obtain r2 a2 where c2: "convert_effects (Action_effects m) p ps a1 = (r2, a2)"
    by (cases "convert_effects (Action_effects m) p ps a1")
  have r2: "r2 = None"
    using assms ps a0 c1 r1 c2 by (cases r2) (simp_all add: convert_action_def)
  have "convert_cost c m p a2 = Inr b \<and> snd (convert_action c s m p) = Some b"
    using assms ps a0 c1 r1 c2 r2
    by (cases "convert_cost c m p a2") (simp_all add: convert_action_def)
  then show ?thesis
    using that [of ps a0 a1 a2] ps a0 c1 r1 c2 r2 by simp
qed

lemma move_converted:
  "convert_action unit_converter None move_msg example_problem = (Inr move, Some move)"
  by code_simp


section \<open>Properties of the atom resolver\<close>

text \<open>
  C3. A symbol that names an object of the problem resolves to that object, also when it
  names a parameter of the current action as well. In general the object table is tried
  first, then the parameters of the current action, if there is one, then the fluent
  table (whose miss is the error \<^verbatim>\<open>UnknownSymbol\<close>).
\<close>

theorem atom_resolution_order:
  "(\<forall>ob a q. map_of (objects p) v = Some ob \<and> cur = Some a \<and> map_of (act_parameters a) v = Some q
       \<longrightarrow> convert_atom cur (SymbolContent v) p = Inr (PObject ob)
           \<and> convert_atom cur (SymbolContent v) p \<noteq> Inr (PNode (em_ParameterExp q)))
   \<and> (\<forall>ob. map_of (objects p) v = Some ob \<longrightarrow>
         convert_atom cur (SymbolContent v) p = Inr (PObject ob))
   \<and> (\<forall>a q. map_of (objects p) v = None \<and> cur = Some a \<and> map_of (act_parameters a) v = Some q
         \<longrightarrow> convert_atom cur (SymbolContent v) p = Inr (PNode (em_ParameterExp q)))
   \<and> (map_of (objects p) v = None
        \<and> (cur = None \<or> (\<exists>a. cur = Some a \<and> map_of (act_parameters a) v = None))
         \<longrightarrow> convert_atom cur (SymbolContent v) p
              = (case map_of (fluents p) v of
                   Some f \<Rightarrow> Inr (PFluent f)
                 | None \<Rightarrow> Inl UnknownSymbol))"
  by (auto simp: convert_atom_def has_object_def problem_object_def problem_fluent_def
      parameter_def split: option.splits)

theorem atom_resolution_order_witness:
  "convert_atom (Some shadow) (SymbolContent ''r1'') example_problem
     = Inr (PObject (Object ''r1'' room))
   \<and> convert_atom (Some shadow) (SymbolContent ''r1'') example_problem
     \<noteq> Inr (PNode (em_ParameterExp (ActionParameter ''r1'' BoolType)))"
proof -
  have "map_of (objects example_problem) ''r1'' = Some (Object ''r1'' room)"
    by (simp add: example_problem_def)
  moreover have "map_of (act_parameters shadow) ''r1'' = Some (ActionParameter ''r1'' BoolType)"
    by (simp add: shadow_def new_action_def)
  ultimately show ?thesis
    using atom_resolution_order [of example_problem "''r1''" "Some shadow"] by blast
qed

text \<open>
  C10. An atom with no content field set converts to \<^verbatim>\<open>None\<close>, with no exception, and
  this \<^verbatim>\<open>None\<close> is the payload of every node that the enclosing expression becomes
  and that takes its payload from the atom (every node but a parameter reference): a
  constant of type \<^verbatim>\<open>bool\<close>, \<^verbatim>\<open>int\<close> or \<^verbatim>\<open>real\<close> and a state variable are
  such nodes whenever the children convert.
\<close>

theorem empty_atom_payload:
  "convert_atom cur NoContent p = Inr PNone
   \<and> (\<forall>nt args pl. convert_expression cur (Expression NoContent lst kind ty) p pm
          = Inr (Some (FNode nt args pl)) \<and> nt \<noteq> PARAM_EXP \<longrightarrow> pl = PNone)
   \<and> (\<forall>args. convert_expression_list cur lst p pm = Inr args \<longrightarrow>
         convert_expression cur (Expression NoContent lst CONSTANT ''bool'') p pm
           = Inr (Some (FNode BOOL_CONSTANT args PNone))
       \<and> convert_expression cur (Expression NoContent lst CONSTANT ''int'') p pm
           = Inr (Some (FNode INT_CONSTANT args PNone))
       \<and> convert_expression cur (Expression NoContent lst CONSTANT ''real'') p pm
           = Inr (Some (FNode REAL_CONSTANT args PNone))
       \<and> convert_expression cur (Expression NoContent lst STATE_VARIABLE ty) p pm
           = Inr (Some (FNode OBJECT_EXP [] PNone)))"
  by (auto simp: convert_atom_def split: sum.splits if_splits)

theorem empty_atom_payload_witness:
  "convert_atom (Some move) NoContent example_problem = Inr PNone
   \<and> convert_expression (Some move) (Expression NoContent [] CONSTANT ''bool'') example_problem []
       = Inr (Some (FNode BOOL_CONSTANT [] PNone))"
proof -
  have "convert_expression_list (Some move) [] example_problem [] = Inr []"
    by simp
  then show ?thesis
    using empty_atom_payload [of "Some move" example_problem "[]" CONSTANT "''bool''" "[]"]
    by blast
qed

section \<open>Properties of the expression rebuilder\<close>

text \<open>
  C8, as the claim states it, fails: the atom of a node is converted before the kind is
  looked at, so a function symbol whose name is neither an object, a parameter nor a
  fluent raises \<^verbatim>\<open>UnknownSymbol\<close>.
\<close>

theorem unsupported_kind_raises:
  "convert_expression (Some move) (Expression (SymbolContent ''plus'') [] FUNCTION_SYMBOL [])
     example_problem [] = Inl UnknownSymbol"
  by code_simp

text \<open>
  C8, amended. For a node of kind \<^verbatim>\<open>FUNCTION_SYMBOL\<close> or
  \<^verbatim>\<open>FUNCTION_APPLICATION\<close> the atom and the children are converted first; an
  exception of these conversions is the exception of the call, and when there is none
  the call returns \<^verbatim>\<open>None\<close>.
\<close>

theorem unsupported_kind_returns_None:
  assumes "kind = FUNCTION_SYMBOL \<or> kind = FUNCTION_APPLICATION"
  shows "convert_expression cur (Expression atom lst kind ty) p pm =
     (case convert_atom cur atom p of
        Inl e \<Rightarrow> Inl e
      | Inr _ \<Rightarrow> (case convert_expression_list cur lst p pm of Inl e \<Rightarrow> Inl e | Inr _ \<Rightarrow> Inr None))"
  using assms by (auto split: sum.splits)

theorem unsupported_kind_returns_None_witness:
  "convert_expression (Some move)
     (Expression (SymbolContent ''loc'') [Expression (SymbolContent ''r1'') [] STATE_VARIABLE []]
        FUNCTION_APPLICATION [])
     example_problem [] = Inr None"
proof -
  have "convert_atom (Some move) (SymbolContent ''loc'') example_problem
          = Inr (PFluent (Fluent ''loc'' room []))"
    by code_simp
  moreover have "convert_expression_list (Some move)
          [Expression (SymbolContent ''r1'') [] STATE_VARIABLE []] example_problem []
          = Inr [Some r1_node]"
    by code_simp
  ultimately show ?thesis
    using unsupported_kind_returns_None [of FUNCTION_APPLICATION "Some move"
        "SymbolContent ''loc''" "[Expression (SymbolContent ''r1'') [] STATE_VARIABLE []]"
        "[]" example_problem "[]"]
    by simp
qed

section \<open>Properties of the action rebuilder\<close>

text \<open>
  C2, as the claim states it, fails: after the conversion of \<^verbatim>\<open>move\<close> on a fresh
  reader the current action is \<^verbatim>\<open>move\<close>, neither cleared nor replaced, and a later
  atom \<^verbatim>\<open>to\<close> resolves to the parameter of \<^verbatim>\<open>move\<close>; on a fresh reader the same
  atom is an unknown symbol.
\<close>

theorem current_action_not_cleared:
  "snd (convert_action unit_converter None move_msg example_problem) = Some move
   \<and> convert_atom (snd (convert_action unit_converter None move_msg example_problem))
        (SymbolContent ''to'') example_problem
       = Inr (PNode (em_ParameterExp (ActionParameter ''to'' room)))
   \<and> convert_atom (None :: unit action option) (SymbolContent ''to'') example_problem
       = Inl UnknownSymbol"
  by code_simp

text \<open>
  C2, amended. When the conversion of an action returns, the reader's current action is
  the action it returned: the scope set for the action's sub-messages stays in effect, and
  a later atom whose symbol names a parameter of that action, and no object, resolves to
  this parameter.
\<close>

theorem current_action_retained:
  assumes "fst (convert_action c s m p) = Inr a"
  shows "snd (convert_action c s m p) = Some a
         \<and> (\<forall>v q. \<not> has_object p v \<and> map_of (act_parameters a) v = Some q \<longrightarrow>
               convert_atom (snd (convert_action c s m p)) (SymbolContent v) p
                 = Inr (PNode (em_ParameterExp q)))"
proof -
  have "snd (convert_action c s m p) = Some a"
    using assms by (rule convert_action_returns)
  then show ?thesis
    by (simp add: convert_atom_def parameter_def)
qed

theorem current_action_retained_witness:
  "fst (convert_action unit_converter None move_msg example_problem) = Inr move
   \<and> snd (convert_action unit_converter None move_msg example_problem) = Some move"
proof -
  have "fst (convert_action unit_converter None move_msg example_problem) = Inr move"
    by (simp add: move_converted)
  then show ?thesis
    using current_action_retained [of unit_converter None move_msg example_problem move]
    by blast
qed



lemma convert_effects_attach:
  assumes "list_all2 (\<lambda>eff e. convert_effect (Some a0) (Effect_effect eff) p pm = Inr e
              \<and> (attachable e \<longrightarrow> (\<forall>tm. Effect_occurence_time eff = Some tm \<longrightarrow>
                     (\<exists>t. convert_timing tm = Inr t)))) es rebuilt"
    and "act_parameters a = act_parameters a0"
  shows "\<exists>a'. convert_effects es p pm a = (None, a')
           \<and> map (\<lambda>(t, f, v). (Some f, Some v)) (act_effects a')
             = map (\<lambda>(t, f, v). (Some f, Some v)) (act_effects a)
               @ map (\<lambda>e. (effect_fluent e, effect_value e)) (filter attachable rebuilt)"
  using assms
proof (induction es rebuilt arbitrary: a rule: list_all2_induct)
  case Nil
  then show ?case by simp
next
  case (Cons eff es e rebuilt)
  have conv: "convert_effect (Some a) (Effect_effect eff) p pm = Inr e"
    using Cons.hyps(1) Cons.prems
      convert_effect_scope [of "Some a" "Some a0" "Effect_effect eff" p pm] by simp
  show ?case
  proof (cases "attachable e")
    case False
    then have "convert_effects (eff # es) p pm a = convert_effects es p pm a"
      using conv by (auto simp: attachable_def split: option.splits)
    then show ?thesis
      using Cons.IH [OF Cons.prems] False by simp
  next
    case True
    then obtain f v where fv: "effect_fluent e = Some f" "effect_value e = Some v"
      by (auto simp: attachable_def)
    show ?thesis
    proof (cases "Effect_occurence_time eff")
      case None
      then have step: "convert_effects (eff # es) p pm a = convert_effects es p pm (add_effect a f v)"
        using conv fv by (simp add: try_add_timed_effect_def)
      have "act_parameters (add_effect a f v) = act_parameters a0"
        using Cons.prems by simp
      from Cons.IH [OF this] show ?thesis
        using step True fv by auto
    next
      case (Some tm)
      then obtain t where t: "convert_timing tm = Inr t"
        using Cons.hyps(1) True by auto
      have step: "convert_effects (eff # es) p pm a
                    = convert_effects es p pm (add_timed_effect a t f v)"
        using conv fv Some t by (simp add: try_add_timed_effect_def)
      have "act_parameters (add_timed_effect a t f v) = act_parameters a0"
        using Cons.prems by simp
      from Cons.IH [OF this] show ?thesis
        using step True fv by auto
    qed
  qed
qed

lemma convert_effects_returned:
  assumes "convert_effects es p pm a = (None, a')"
    and "act_parameters a = act_parameters a0"
  shows "\<exists>rebuilt.
           list_all2 (\<lambda>eff e. convert_effect (Some a0) (Effect_effect eff) p pm = Inr e) es rebuilt
           \<and> map (\<lambda>(t, f, v). (Some f, Some v)) (act_effects a')
             = map (\<lambda>(t, f, v). (Some f, Some v)) (act_effects a)
               @ map (\<lambda>e. (effect_fluent e, effect_value e)) (filter attachable rebuilt)"
  using assms
proof (induction es arbitrary: a)
  case Nil
  then show ?case by simp
next
  case (Cons eff es)
  have sc: "convert_effect (Some a) (Effect_effect eff) p pm
              = convert_effect (Some a0) (Effect_effect eff) p pm"
    using Cons.prems(2) convert_effect_scope [of "Some a" "Some a0" "Effect_effect eff" p pm]
    by simp
  obtain e where e: "convert_effect (Some a0) (Effect_effect eff) p pm = Inr e"
    using Cons.prems(1) sc by (cases "convert_effect (Some a0) (Effect_effect eff) p pm") auto
  obtain a1 where a1: "convert_effects es p pm a1 = (None, a')"
      "act_parameters a1 = act_parameters a0"
      "map (\<lambda>(t, f, v). (Some f, Some v)) (act_effects a1)
         = map (\<lambda>(t, f, v). (Some f, Some v)) (act_effects a)
           @ map (\<lambda>e. (effect_fluent e, effect_value e)) (filter attachable [e])"
  proof (cases "attachable e")
    case False
    then have "convert_effects es p pm a = (None, a')"
      using Cons.prems(1) sc e by (auto simp: attachable_def split: option.splits)
    then show ?thesis using that [of a] Cons.prems(2) False by simp
  next
    case True
    then obtain f v where fv: "effect_fluent e = Some f" "effect_value e = Some v"
      by (auto simp: attachable_def)
    show ?thesis
    proof (cases "try_add_timed_effect a (Effect_occurence_time eff) f v")
      case (Inr a1)
      then obtain t where "a1 = add_timed_effect a t f v"
        by (auto simp: try_add_timed_effect_def split: option.splits sum.splits)
      moreover have "convert_effects es p pm a1 = (None, a')"
        using Cons.prems(1) sc e fv Inr by simp
      ultimately show ?thesis using that [of a1] Cons.prems(2) True fv by simp
    next
      case (Inl err)
      then have "convert_effects es p pm (add_effect a f v) = (None, a')"
        using Cons.prems(1) sc e fv by (simp split: if_splits)
      then show ?thesis using that [of "add_effect a f v"] Cons.prems(2) True fv by simp
    qed
  qed
  from Cons.IH [OF a1(1) a1(2)] obtain rebuilt where
    r: "list_all2 (\<lambda>eff e. convert_effect (Some a0) (Effect_effect eff) p pm = Inr e) es rebuilt"
       "map (\<lambda>(t, f, v). (Some f, Some v)) (act_effects a')
         = map (\<lambda>(t, f, v). (Some f, Some v)) (act_effects a1)
           @ map (\<lambda>e. (effect_fluent e, effect_value e)) (filter attachable rebuilt)"
    by blast
  have "list_all2 (\<lambda>eff e. convert_effect (Some a0) (Effect_effect eff) p pm = Inr e)
          (eff # es) (e # rebuilt)"
    using e r(1) by simp
  moreover have "map (\<lambda>(t, f, v). (Some f, Some v)) (act_effects a')
         = map (\<lambda>(t, f, v). (Some f, Some v)) (act_effects a)
           @ map (\<lambda>e. (effect_fluent e, effect_value e)) (filter attachable (e # rebuilt))"
    using r(2) a1(3) by simp
  ultimately show ?case by blast
qed

lemma convert_action_effects:
  assumes "fst (convert_action c s m p) = Inr b"
  shows "\<exists>rebuilt.
           list_all2 (\<lambda>eff e. convert_effect (Some b) (Effect_effect eff) p (act_parameters b) = Inr e)
             (Action_effects m) rebuilt
           \<and> map (\<lambda>(t, f, v). (Some f, Some v)) (act_effects b)
             = map (\<lambda>e. (effect_fluent e, effect_value e)) (filter attachable rebuilt)"
proof -
  from assms obtain ps a0 a1 a2 where
    st: "convert_duration c s m p ps = Inr a0"
      "convert_conditions (Action_conditions m) p ps a0 = (None, a1)"
      "convert_effects (Action_effects m) p ps a1 = (None, a2)"
      "convert_cost c m p a2 = Inr b"
    by (rule convert_action_returns)
  have f1: "act_parameters a1 = ps" "act_effects a1 = []"
    using convert_conditions_frame [OF st(2)] convert_duration_fields(1,2) [OF st(1)]
    by simp_all
  have f2: "act_parameters b = ps" "act_effects b = act_effects a2"
    using convert_effects_frame [OF st(3)] convert_cost_fields [OF st(4)] f1 by simp_all
  have "act_parameters a1 = act_parameters b"
    using f1 f2 by simp
  from convert_effects_returned [OF st(3) this] show ?thesis
    using f1 f2 by simp
qed

text \<open>
  C4. In the loop over the effect sub-messages of an action, let every sub-message be
  rebuilt without an exception, and let the occurrence time of every rebuilt effect that
  has both a fluent and a value, if it has one, be converted without an exception. Then
  the loop completes, and the effects it attaches to the action are, in order, exactly the
  rebuilt effects that have both a fluent and a value: an effect that misses one is
  passed over and the loop goes on with the next. And whenever the conversion of an action
  returns, every effect sub-message was rebuilt without an exception and the effects of
  the returned action are exactly the rebuilt ones that have both.
\<close>

theorem effects_attached_iff_resolved:
  "(list_all2 (\<lambda>eff e. convert_effect (Some a) (Effect_effect eff) p pm = Inr e
              \<and> (attachable e \<longrightarrow> (\<forall>tm. Effect_occurence_time eff = Some tm \<longrightarrow>
                     (\<exists>t. convert_timing tm = Inr t)))) es rebuilt
     \<longrightarrow> (\<exists>a'. convert_effects es p pm a = (None, a')
           \<and> map (\<lambda>(t, f, v). (Some f, Some v)) (act_effects a')
             = map (\<lambda>(t, f, v). (Some f, Some v)) (act_effects a)
               @ map (\<lambda>e. (effect_fluent e, effect_value e)) (filter attachable rebuilt)))
   \<and> (fst (convert_action c s m p) = Inr b
     \<longrightarrow> (\<exists>rebuilt.
           list_all2 (\<lambda>eff e. convert_effect (Some b) (Effect_effect eff) p (act_parameters b) = Inr e)
             (Action_effects m) rebuilt
           \<and> map (\<lambda>(t, f, v). (Some f, Some v)) (act_effects b)
             = map (\<lambda>e. (effect_fluent e, effect_value e)) (filter attachable rebuilt)))"
  using convert_effects_attach [of a p pm es rebuilt a] convert_action_effects [of c s m p b]
  by blast

theorem effects_attached_iff_resolved_witness:
  "\<exists>a'. convert_effects [unsupported_effect, supported_effect] example_problem [] move = (None, a')
      \<and> map (\<lambda>(t, f, v). (Some f, Some v)) (act_effects a') = [(Some loc_node, Some r1_node)]"
proof -
  let ?skipped = "Effect (Some loc_node) None None ASSIGN"
  let ?kept = "Effect (Some loc_node) (Some r1_node) None ASSIGN"
  have 1: "convert_effect (Some move) (Effect_effect unsupported_effect) example_problem []
             = Inr ?skipped"
    by code_simp
  have 2: "convert_effect (Some move) (Effect_effect supported_effect) example_problem []
             = Inr ?kept"
    by code_simp
  have 3: "Effect_occurence_time unsupported_effect = None"
      "Effect_occurence_time supported_effect = None"
    by (simp_all add: unsupported_effect_def supported_effect_def)
  have 4: "\<not> attachable ?skipped" "attachable ?kept"
    by (simp_all add: attachable_def effect_fluent_def effect_value_def)
  have "list_all2 (\<lambda>eff e. convert_effect (Some move) (Effect_effect eff) example_problem [] = Inr e
              \<and> (attachable e \<longrightarrow> (\<forall>tm. Effect_occurence_time eff = Some tm \<longrightarrow>
                     (\<exists>t. convert_timing tm = Inr t))))
          [unsupported_effect, supported_effect] [?skipped, ?kept]"
    using 1 2 3 by simp
  then have "\<exists>a'. convert_effects [unsupported_effect, supported_effect] example_problem [] move
                 = (None, a')
           \<and> map (\<lambda>(t, f, v). (Some f, Some v)) (act_effects a')
             = map (\<lambda>(t, f, v). (Some f, Some v)) (act_effects move)
               @ map (\<lambda>e. (effect_fluent e, effect_value e)) (filter attachable [?skipped, ?kept])"
    using effects_attached_iff_resolved
      [of move example_problem "[]" "[unsupported_effect, supported_effect]" "[?skipped, ?kept]"]
    by blast
  then show ?thesis
    using 4 by (simp add: move_def new_action_def effect_fluent_def effect_value_def)
qed

section \<open>Converting a message twice\<close>






end
